theory Spec2Isabelle
  imports Main
begin

section \<open>JavaScript values and the Outcome collaborator\<close>

text \<open>
  The container of \<^verbatim>\<open>option.ts\<close> is generic in its payload, but it decides presence at
  run time with \<^verbatim>\<open>typeof this.payload === "undefined"\<close> and tests
  \<^verbatim>\<open>this.payload instanceof Result\<close>, so payloads are modelled as untyped JavaScript
  values. Numbers are the integer-valued ones; \<open>Obj\<close> stands for any other object,
  named by its reference.

  Modelled from the spec: the Outcome container \<^verbatim>\<open>Result\<close> is imported from the package
  \<^verbatim>\<open>@marionebl/result\<close>, which is not among the sources. Its contract is the one of the
  specification (section 6): constructors \<^verbatim>\<open>Ok(value)\<close> and \<^verbatim>\<open>Err(message, code?)\<close>,
  queries \<^verbatim>\<open>isOk()\<close>, \<^verbatim>\<open>isErr()\<close>, and \<^verbatim>\<open>unwrap()\<close>, \<^verbatim>\<open>unwrapErr()\<close>, all of
  them possibly asynchronous. An optional argument that is not supplied is
  \<^verbatim>\<open>undefined\<close>, as in JavaScript. The contract does not say what \<^verbatim>\<open>unwrap()\<close> on a
  failure and \<^verbatim>\<open>unwrapErr()\<close> on a success reject with; \<^verbatim>\<open>transpose\<close> calls the first
  on a success only and the second on a failure only, and the errors given to the other
  cases below only make the functions total.
\<close>

datatype ('v, 'c) Result = Ok 'v | Err string 'c

datatype jsval =
    Undefined
  | Null
  | Bool bool
  | Num int
  | Str string
  | ResultV "(jsval, jsval) Result"
  | Obj nat

fun typeof :: "jsval \<Rightarrow> string" where
  "typeof Undefined = ''undefined''"
| "typeof Null = ''object''"
| "typeof (Bool b) = ''boolean''"
| "typeof (Num n) = ''number''"
| "typeof (Str s) = ''string''"
| "typeof (ResultV r) = ''object''"
| "typeof (Obj a) = ''object''"

text \<open>A JavaScript \<^verbatim>\<open>Error\<close> object, with its \<^verbatim>\<open>message\<close> property.\<close>

datatype JsError = Error (message: string)

text \<open>
  A promise that has settled: \<^verbatim>\<open>await\<close> continues with the value of a resolved promise
  and propagates a rejection.
\<close>

datatype 'a Promise = Resolved 'a | Rejected JsError

definition await :: "'a Promise \<Rightarrow> ('a \<Rightarrow> 'b Promise) \<Rightarrow> 'b Promise" where
  "await p k = (case p of Resolved a \<Rightarrow> k a | Rejected e \<Rightarrow> Rejected e)"

definition Result_Ok :: "'v \<Rightarrow> ('v, 'c) Result" where
  "Result_Ok v = Ok v"

definition Result_Err :: "string \<Rightarrow> 'c \<Rightarrow> ('v, 'c) Result" where
  "Result_Err msg c = Err msg c"

definition Result_isOk :: "('v, 'c) Result \<Rightarrow> bool Promise" where
  "Result_isOk r = Resolved (case r of Ok v \<Rightarrow> True | Err m c \<Rightarrow> False)"

definition Result_isErr :: "('v, 'c) Result \<Rightarrow> bool Promise" where
  "Result_isErr r = Resolved (case r of Ok v \<Rightarrow> False | Err m c \<Rightarrow> True)"

definition Result_unwrap :: "('v, 'c) Result \<Rightarrow> 'v Promise" where
  "Result_unwrap r = (case r of Ok v \<Rightarrow> Resolved v | Err m c \<Rightarrow> Rejected (Error m))"

definition Result_unwrapErr :: "('v, 'c) Result \<Rightarrow> JsError Promise" where
  "Result_unwrapErr r =
     (case r of Ok v \<Rightarrow> Rejected (Error ''unwrapErr: Expected Err(), was Ok()'')
      | Err m c \<Rightarrow> Resolved (Error m))"

section \<open>The Option class\<close>

text \<open>
  \<^verbatim>\<open>class Option<Payload> { private payload?: Payload; ... }\<close>: one slot, and no tag
  beside it. A method that assigns to \<^verbatim>\<open>this.payload\<close> returns the receiver after the
  call next to its result; object identity is not modelled, and a method that returns
  \<^verbatim>\<open>this\<close> returns the receiver's state. A callback may have effects of its own, so a
  method that takes one threads a state of the callback's world through the call: the
  callback is run exactly where the source invokes it.
\<close>

record Option =
  payload :: jsval

type_synonym ('s, 'a) eff = "'s \<Rightarrow> 'a \<times> 's"

definition Option_new :: "jsval \<Rightarrow> Option" where
  "Option_new p = \<lparr>payload = p\<rparr>"

definition from_opt :: "jsval \<Rightarrow> Option" where
  "from_opt p = Option_new p"

definition Some_opt :: "jsval \<Rightarrow> Option" where
  "Some_opt p = Option_new p"

definition None_opt :: "Option" where
  "None_opt = Option_new Undefined"

definition isSome :: "Option \<Rightarrow> bool" where
  "isSome this = (typeof (payload this) \<noteq> ''undefined'')"

definition isNone :: "Option \<Rightarrow> bool" where
  "isNone this = (typeof (payload this) = ''undefined'')"

definition expect :: "string \<Rightarrow> Option \<Rightarrow> JsError + jsval" where
  "expect msg this =
     (if typeof (payload this) = ''undefined'' then Inl (Error msg)
      else Inr (payload this))"

definition unwrap :: "Option \<Rightarrow> JsError + jsval" where
  "unwrap this =
     (if typeof (payload this) = ''undefined''
      then Inl (Error ''unwrap: Expected Some(), was None()'')
      else Inr (payload this))"

definition map_opt :: "(jsval \<Rightarrow> ('s, jsval) eff) \<Rightarrow> Option \<Rightarrow> ('s, Option) eff" where
  "map_opt fn this s =
     (if typeof (payload this) = ''undefined'' then (this, s)
      else (case fn (payload this) s of (v, s') \<Rightarrow> (from_opt v, s')))"

definition okOr :: "string \<Rightarrow> jsval \<Rightarrow> Option \<Rightarrow> (jsval, jsval) Result" where
  "okOr msg c this =
     (if typeof (payload this) \<noteq> ''undefined'' then Result_Ok (payload this)
      else Result_Err msg Undefined)"

text \<open>What the callback of \<^verbatim>\<open>okOrElse\<close> returns: \<^verbatim>\<open>string | [string, C]\<close>.\<close>

datatype ErrArgs = Message string | MessageCode string jsval

definition okOrElse :: "('s, ErrArgs) eff \<Rightarrow> Option \<Rightarrow> ('s, (jsval, jsval) Result) eff" where
  "okOrElse fn this s =
     (if typeof (payload this) \<noteq> ''undefined'' then (Result_Ok (payload this), s)
      else (case fn s of
              (MessageCode msg c, s') \<Rightarrow> (Result_Err msg c, s')
            | (Message msg, s') \<Rightarrow> (Result_Err msg Undefined, s')))"

definition andThen :: "(jsval \<Rightarrow> ('s, Option) eff) \<Rightarrow> Option \<Rightarrow> ('s, Option) eff" where
  "andThen fn this s = (if isNone this then (this, s) else fn (payload this) s)"

definition xor_opt :: "Option \<Rightarrow> Option \<Rightarrow> Option" where
  "xor_opt this b =
     (if isSome this \<and> isNone b then this
      else if isNone this \<and> isSome b then b
      else None_opt)"

text \<open>
  The mutating methods return the pair of the method's result and the receiver after
  the call. \<^verbatim>\<open>getOrInsert\<close> and \<^verbatim>\<open>getOrInsertWith\<close> return the receiver itself.
\<close>

definition getOrInsert :: "jsval \<Rightarrow> Option \<Rightarrow> Option \<times> Option" where
  "getOrInsert p this =
     (if isSome this then (this, this)
      else (this\<lparr>payload := p\<rparr>, this\<lparr>payload := p\<rparr>))"

definition getOrInsertWith :: "('s, jsval) eff \<Rightarrow> Option \<Rightarrow> ('s, Option \<times> Option) eff" where
  "getOrInsertWith fn this s =
     (if isSome this then ((this, this), s)
      else (case fn s of (p, s') \<Rightarrow> ((this\<lparr>payload := p\<rparr>, this\<lparr>payload := p\<rparr>), s')))"

definition take_opt :: "Option \<Rightarrow> Option \<times> Option" where
  "take_opt this = (from_opt (payload this), this\<lparr>payload := Undefined\<rparr>)"

definition replace :: "jsval \<Rightarrow> Option \<Rightarrow> Option \<times> Option" where
  "replace p this = (from_opt (payload this), this\<lparr>payload := p\<rparr>)"

definition transpose_opt :: "Option \<Rightarrow> ((Option, jsval) Result) Promise" where
  "transpose_opt this =
     (case payload this of
        ResultV r \<Rightarrow>
          await (Result_isErr r) (\<lambda>isErr.
            if isErr
            then await (Result_unwrapErr r) (\<lambda>err. Resolved (Result_Err (message err) Undefined))
            else await (Result_isOk r) (\<lambda>isOk.
              if isOk
              then await (Result_unwrap r) (\<lambda>v. Resolved (Result_Ok (from_opt v)))
              else Resolved (Result_Ok None_opt)))
      | _ \<Rightarrow> Resolved (Result_Ok None_opt))"

text \<open>
  A chain \<^verbatim>\<open>x.andThen(f1).andThen(f2)...\<close>: each call's receiver is the result of the
  call before it, and the calls run one after the other.
\<close>

fun andThen_chain :: "(jsval \<Rightarrow> ('s, Option) eff) list \<Rightarrow> Option \<Rightarrow> ('s, Option) eff" where
  "andThen_chain [] this s = (this, s)"
| "andThen_chain (fn # fns) this s =
     (case andThen fn this s of (this', s') \<Rightarrow> andThen_chain fns this' s')"

text \<open>
  The instrumented callbacks of \<^verbatim>\<open>option.test.ts\<close>,
  \<^verbatim>\<open>jest.fn((input: number) => Option.Some(input * input))\<close> and
  \<^verbatim>\<open>jest.fn(() => Option.None())\<close>; the state counts the calls. The parameter of
  \<open>square\<close> is typed \<^verbatim>\<open>number\<close>: a payload of another type does not reach it, and the
  model answers \<^verbatim>\<open>None()\<close> there.
\<close>

definition square :: "jsval \<Rightarrow> (nat, Option) eff" where
  "square v calls =
     (case v of Num n \<Rightarrow> (Some_opt (Num (n * n)), Suc calls) | _ \<Rightarrow> (None_opt, Suc calls))"

definition nope :: "jsval \<Rightarrow> (nat, Option) eff" where
  "nope v calls = (None_opt, Suc calls)"

section \<open>Basic facts\<close>

lemma typeof_undefined_iff: "typeof v = ''undefined'' \<longleftrightarrow> v = Undefined"
  by (cases v) simp_all

lemma isSome_payload: "isSome this \<longleftrightarrow> payload this \<noteq> Undefined"
  by (simp add: isSome_def typeof_undefined_iff)

lemma isNone_payload: "isNone this \<longleftrightarrow> payload this = Undefined"
  by (simp add: isNone_def typeof_undefined_iff)

lemma payload_new: "payload (Option_new p) = p"
  by (simp add: Option_new_def)

lemma isNone_not_isSome: "isNone this = (\<not> isSome this)"
  by (simp add: isNone_def isSome_def)

lemma isSome_new: "isSome (Option_new p) \<longleftrightarrow> p \<noteq> Undefined"
  by (simp add: isSome_payload payload_new)

lemma unwrap_new: "p \<noteq> Undefined \<Longrightarrow> unwrap (Option_new p) = Inr p"
  by (simp add: unwrap_def payload_new typeof_undefined_iff)

text \<open>
  The object that \<^verbatim>\<open>take\<close> and \<^verbatim>\<open>replace\<close> return is built by \<^verbatim>\<open>Option.from\<close> from the
  slot's former content, so it has the receiver's former state.
\<close>

lemma take_opt_eq: "take_opt this = (this, None_opt)"
  by (simp add: take_opt_def from_opt_def None_opt_def Option_new_def)

lemma replace_eq: "replace p this = (this, Option_new p)"
  by (simp add: replace_def from_opt_def Option_new_def)

lemma okOr_eq:
  "okOr msg c this = (if isSome this then Result_Ok (payload this) else Result_Err msg Undefined)"
  by (simp add: okOr_def isSome_def)

lemma transpose_Err: "payload this = ResultV (Err m c) \<Longrightarrow>
    transpose_opt this = Resolved (Result_Err m Undefined)"
  by (simp add: transpose_opt_def await_def Result_isErr_def Result_unwrapErr_def)

lemma transpose_Ok: "payload this = ResultV (Ok v) \<Longrightarrow>
    transpose_opt this = Resolved (Result_Ok (from_opt v))"
  by (simp add: transpose_opt_def await_def Result_isErr_def Result_isOk_def Result_unwrap_def)

lemma transpose_other: "\<forall>r. payload this \<noteq> ResultV r \<Longrightarrow>
    transpose_opt this = Resolved (Result_Ok None_opt)"
  by (cases "payload this") (simp_all add: transpose_opt_def)

text \<open>Once the receiver is a \<^verbatim>\<open>None\<close>, no step of a chain runs.\<close>

lemma andThen_chain_None: "isNone this \<Longrightarrow> andThen_chain fns this s = (this, s)"
  by (induction fns) (simp_all add: andThen_def)

lemma andThen_chain_append:
  "andThen_chain (fns @ gns) this s =
     (case andThen_chain fns this s of (this', s') \<Rightarrow> andThen_chain gns this' s')"
  by (induction fns arbitrary: this s) (simp_all split: prod.splits)

section \<open>Queries and constructors\<close>

text \<open>
  C9. \<^verbatim>\<open>isNone()\<close> is the negation of \<^verbatim>\<open>isSome()\<close> on every container: on any state of
  the payload slot, hence on what the constructors \<^verbatim>\<open>from\<close>, \<^verbatim>\<open>Some\<close> and \<^verbatim>\<open>None\<close> build
  and on the results and receivers that \<^verbatim>\<open>take\<close>, \<^verbatim>\<open>replace\<close>, \<^verbatim>\<open>getOrInsert\<close> and
  \<^verbatim>\<open>getOrInsertWith\<close> leave behind.
\<close>

theorem isNone_complements_isSome:
  "isNone this = (\<not> isSome this)
   \<and> isNone (from_opt p) = (\<not> isSome (from_opt p))
   \<and> isNone (Some_opt p) = (\<not> isSome (Some_opt p))
   \<and> isNone None_opt = (\<not> isSome None_opt)
   \<and> isNone (fst (take_opt this)) = (\<not> isSome (fst (take_opt this)))
   \<and> isNone (snd (take_opt this)) = (\<not> isSome (snd (take_opt this)))
   \<and> isNone (fst (replace p this)) = (\<not> isSome (fst (replace p this)))
   \<and> isNone (snd (replace p this)) = (\<not> isSome (snd (replace p this)))
   \<and> isNone (snd (getOrInsert p this)) = (\<not> isSome (snd (getOrInsert p this)))
   \<and> isNone (snd (fst (getOrInsertWith fn this s)))
       = (\<not> isSome (snd (fst (getOrInsertWith fn this s))))"
  by (simp add: isNone_not_isSome)

text \<open>
  C10. The absence sentinel is exactly \<^verbatim>\<open>undefined\<close>: \<^verbatim>\<open>from(p)\<close> and \<^verbatim>\<open>Some(p)\<close> are a
  \<^verbatim>\<open>Some\<close> exactly when \<open>p\<close> is not \<^verbatim>\<open>undefined\<close>, and then \<^verbatim>\<open>unwrap()\<close> returns \<open>p\<close>;
  this covers \<^verbatim>\<open>null\<close>, \<^verbatim>\<open>0\<close>, \<^verbatim>\<open>false\<close> and the empty string. Only \<^verbatim>\<open>undefined\<close> gives
  a \<^verbatim>\<open>None\<close>.
\<close>

theorem absence_sentinel_is_undefined:
  "isSome (from_opt p) = (p \<noteq> Undefined)
   \<and> isSome (Some_opt p) = (p \<noteq> Undefined)
   \<and> isNone (from_opt p) = (p = Undefined)
   \<and> isNone (Some_opt p) = (p = Undefined)
   \<and> (p \<noteq> Undefined \<longrightarrow> unwrap (from_opt p) = Inr p \<and> unwrap (Some_opt p) = Inr p)"
  by (simp add: from_opt_def Some_opt_def isSome_new isNone_not_isSome unwrap_new)

text \<open>The falsy and null-like payloads of C10, and \<^verbatim>\<open>undefined\<close>.\<close>

theorem absence_sentinel_is_undefined_witness:
  "Null \<noteq> Undefined \<and> Num 0 \<noteq> Undefined \<and> Bool False \<noteq> Undefined \<and> Str [] \<noteq> Undefined
   \<and> isSome (from_opt Null) \<and> unwrap (from_opt Null) = Inr Null
   \<and> isSome (Some_opt (Num 0)) \<and> unwrap (Some_opt (Num 0)) = Inr (Num 0)
   \<and> isSome (from_opt (Bool False)) \<and> unwrap (from_opt (Bool False)) = Inr (Bool False)
   \<and> isSome (Some_opt (Str [])) \<and> unwrap (Some_opt (Str [])) = Inr (Str [])
   \<and> isNone (from_opt Undefined) \<and> isNone (Some_opt Undefined)"
  using absence_sentinel_is_undefined [of Null] absence_sentinel_is_undefined [of "Num 0"]
    absence_sentinel_is_undefined [of "Bool False"] absence_sentinel_is_undefined [of "Str []"]
    absence_sentinel_is_undefined [of Undefined]
  by simp

section \<open>Unwrapping\<close>

text \<open>
  C6. On a \<^verbatim>\<open>Some\<close>, \<^verbatim>\<open>expect(message)\<close> and \<^verbatim>\<open>unwrap()\<close> return the payload. On a
  \<^verbatim>\<open>None\<close>, \<^verbatim>\<open>expect(message)\<close> throws an error whose message is the caller's, verbatim,
  and \<^verbatim>\<open>unwrap()\<close> throws one with the fixed message
  \<^verbatim>\<open>unwrap: Expected Some(), was None()\<close>. The thrown \<^verbatim>\<open>Error\<close> is the specification's
  ValueAbsent.
\<close>

theorem expect_unwrap_spec:
  "(isSome this \<longrightarrow> expect msg this = Inr (payload this) \<and> unwrap this = Inr (payload this))
   \<and> (isNone this \<longrightarrow> expect msg this = Inl (Error msg)
         \<and> unwrap this = Inl (Error ''unwrap: Expected Some(), was None()''))"
  by (simp add: isSome_def isNone_def expect_def unwrap_def)

text \<open>C6 on \<^verbatim>\<open>Some("something")\<close> and on \<^verbatim>\<open>None()\<close>.\<close>

theorem expect_unwrap_spec_witness:
  "isSome (Some_opt (Str ''something'')) \<and> isNone None_opt
   \<and> expect ''something bad'' (Some_opt (Str ''something'')) = Inr (Str ''something'')
   \<and> unwrap (Some_opt (Str ''something'')) = Inr (Str ''something'')
   \<and> expect ''something bad'' None_opt = Inl (Error ''something bad'')
   \<and> unwrap None_opt = Inl (Error ''unwrap: Expected Some(), was None()'')"
  using expect_unwrap_spec [of "Some_opt (Str ''something'')" "''something bad''"]
    expect_unwrap_spec [of None_opt "''something bad''"]
  by (simp add: Some_opt_def None_opt_def isSome_new isNone_not_isSome payload_new)

section \<open>Transformation\<close>

text \<open>
  C4. \<^verbatim>\<open>map(fn)\<close> on a \<^verbatim>\<open>None\<close> returns the receiver, a \<^verbatim>\<open>None\<close>, and leaves the
  callback's world as it was whatever \<open>fn\<close> is, so \<open>fn\<close> has not run. On a \<^verbatim>\<open>Some(p)\<close>
  it runs \<open>fn\<close> on \<open>p\<close> once and returns \<^verbatim>\<open>from\<close> of its result, so a result equal to
  \<^verbatim>\<open>undefined\<close> gives a \<^verbatim>\<open>None\<close>.
\<close>

theorem map_spec:
  "(isNone this \<longrightarrow> map_opt fn this s = (this, s) \<and> isNone (fst (map_opt fn this s)))
   \<and> (isSome this \<longrightarrow>
         map_opt fn this s = (from_opt (fst (fn (payload this) s)), snd (fn (payload this) s)))
   \<and> (isSome this \<and> fst (fn (payload this) s) = Undefined \<longrightarrow>
         fst (map_opt fn this s) = None_opt \<and> isNone (fst (map_opt fn this s)))"
  by (auto simp add: map_opt_def isNone_def isSome_def from_opt_def None_opt_def
        Option_new_def split: prod.splits)

text \<open>C4 with callbacks that count their calls.\<close>

theorem map_spec_witness:
  "isNone None_opt \<and> isSome (Some_opt (Str ''something''))
   \<and> map_opt (\<lambda>v calls. (Str ''anotherthing'', Suc calls)) None_opt (0::nat) = (None_opt, 0)
   \<and> map_opt (\<lambda>v calls. (Str ''anotherthing'', Suc calls)) (Some_opt (Str ''something'')) (0::nat)
       = (Some_opt (Str ''anotherthing''), 1)
   \<and> map_opt (\<lambda>v calls. (Undefined, Suc calls)) (Some_opt (Str ''something'')) (0::nat)
       = (None_opt, 1)"
  using map_spec [of None_opt "\<lambda>v calls. (Str ''anotherthing'', Suc calls)" "0::nat"]
    map_spec [of "Some_opt (Str ''something'')" "\<lambda>v calls. (Str ''anotherthing'', Suc calls)" "0::nat"]
    map_spec [of "Some_opt (Str ''something'')" "\<lambda>v calls. (Undefined, Suc calls)" "0::nat"]
  by (simp add: Some_opt_def None_opt_def from_opt_def isSome_new isNone_not_isSome payload_new
        prod_eq_iff)

section \<open>Outcome interop\<close>

text \<open>
  C2. \<^verbatim>\<open>okOr(message, c)\<close> takes the code \<open>c\<close> and never passes it on: on a \<^verbatim>\<open>None\<close> it
  returns \<^verbatim>\<open>Result.Err(message)\<close>, whatever \<open>c\<close> is. At \<^verbatim>\<open>None().okOr("msg", 42)\<close> the
  failure outcome is the one built from the message alone, not from the message and the
  code; \<^verbatim>\<open>okOrElse\<close>, given the pair of the same message and code, passes both.
\<close>

theorem okOr_drops_code:
  "isNone None_opt
   \<and> okOr ''msg'' (Num 42) None_opt = Result_Err ''msg'' Undefined
   \<and> okOr ''msg'' (Num 42) None_opt \<noteq> Result_Err ''msg'' (Num 42)
   \<and> fst (okOrElse (\<lambda>s. (MessageCode ''msg'' (Num 42), s)) None_opt ())
       = Result_Err ''msg'' (Num 42)"
  by (simp add: okOr_eq okOrElse_def None_opt_def isSome_new isNone_not_isSome payload_new
        Result_Err_def)

section \<open>Combinators\<close>

text \<open>
  C7. \<^verbatim>\<open>andThen(fn)\<close> on a \<^verbatim>\<open>None\<close> returns the receiver and leaves the callback's world
  as it was, whatever \<open>fn\<close> is; on a \<^verbatim>\<open>Some(p)\<close> it is the call \<open>fn(p)\<close> itself, result
  and effects. So \<^verbatim>\<open>Some(2).andThen(sq).andThen(sq)\<close> is \<^verbatim>\<open>Some(16)\<close> for any \<open>sq\<close> that
  returns \<^verbatim>\<open>Some(n * n)\<close> on a number \<open>n\<close>, and once a chain has returned a \<^verbatim>\<open>None\<close>, any
  further steps leave both the result and the world unchanged: none of them runs.
\<close>

theorem andThen_spec:
  "(isNone this \<longrightarrow> andThen fn this s = (this, s))
   \<and> (isSome this \<longrightarrow> andThen fn this s = fn (payload this) s)
   \<and> ((\<forall>n t. fst (sq (Num n) t) = Some_opt (Num (n * n))) \<longrightarrow>
         fst (andThen_chain [sq, sq] (Some_opt (Num 2)) s) = Some_opt (Num 16))
   \<and> (isNone (fst (andThen_chain fns this s)) \<longrightarrow>
         andThen_chain (fns @ gns) this s = andThen_chain fns this s)"
proof (intro conjI impI)
  assume "isNone this"
  then show "andThen fn this s = (this, s)" by (simp add: andThen_def)
next
  assume "isSome this"
  then show "andThen fn this s = fn (payload this) s"
    by (simp add: andThen_def isNone_not_isSome)
next
  assume sq: "\<forall>n t. fst (sq (Num n) t) = Some_opt (Num (n * n))"
  have some: "isSome (Some_opt (Num k))" for k
    by (simp add: Some_opt_def isSome_new)
  have step: "andThen sq (Some_opt (Num k)) t = sq (Num k) t" for k t
    using some [of k] by (simp add: andThen_def isNone_not_isSome Some_opt_def payload_new)
  obtain o1 s1 where r1: "sq (Num 2) s = (o1, s1)" by (cases "sq (Num 2) s")
  have o1: "o1 = Some_opt (Num 4)" using sq [rule_format, of 2 s] r1 by simp
  obtain o2 s2 where r2: "sq (Num 4) s1 = (o2, s2)" by (cases "sq (Num 4) s1")
  have o2: "o2 = Some_opt (Num 16)" using sq [rule_format, of 4 s1] r2 by simp
  show "fst (andThen_chain [sq, sq] (Some_opt (Num 2)) s) = Some_opt (Num 16)"
    by (simp add: step r1 o1 r2 o2)
next
  assume none: "isNone (fst (andThen_chain fns this s))"
  obtain t s' where r: "andThen_chain fns this s = (t, s')" by (cases "andThen_chain fns this s")
  with none have "isNone t" by simp
  then show "andThen_chain (fns @ gns) this s = andThen_chain fns this s"
    by (simp add: andThen_chain_append r andThen_chain_None)
qed

text \<open>
  C7 with the counting callbacks of the tests: after \<^verbatim>\<open>Some(2).andThen(square).andThen(nope)\<close>
  two calls have been made, and two more \<^verbatim>\<open>andThen(square)\<close> add none.
\<close>

theorem andThen_spec_witness:
  "isNone None_opt \<and> isSome (Some_opt (Num 2))
   \<and> (\<forall>n t. fst (square (Num n) t) = Some_opt (Num (n * n)))
   \<and> andThen square None_opt 0 = (None_opt, 0)
   \<and> andThen square (Some_opt (Num 2)) 0 = (Some_opt (Num 4), 1)
   \<and> andThen_chain [square, square] (Some_opt (Num 2)) 0 = (Some_opt (Num 16), 2)
   \<and> isNone (fst (andThen_chain [square, nope] (Some_opt (Num 2)) 0))
   \<and> andThen_chain ([square, nope] @ [square, square]) (Some_opt (Num 2)) 0 = (None_opt, 2)"
  using andThen_spec [of None_opt square 0 square "[]" "[]"]
    andThen_spec [of "Some_opt (Num 2)" square 0 square "[square, nope]" "[square, square]"]
  by (simp add: Some_opt_def None_opt_def isSome_new isNone_not_isSome payload_new
        square_def nope_def andThen_def prod_eq_iff)

text \<open>
  C8. \<^verbatim>\<open>xor(b)\<close> is a \<^verbatim>\<open>Some\<close> exactly when exactly one of the receiver and \<open>b\<close> is, and
  it is then that operand; it is \<^verbatim>\<open>None\<close> when both are \<^verbatim>\<open>Some\<close> and when both are
  \<^verbatim>\<open>None\<close>.
\<close>

theorem xor_spec:
  "isSome (xor_opt this b) = (isSome this \<noteq> isSome b)
   \<and> (isSome this \<and> isNone b \<longrightarrow> xor_opt this b = this)
   \<and> (isNone this \<and> isSome b \<longrightarrow> xor_opt this b = b)
   \<and> (isSome this \<and> isSome b \<longrightarrow> xor_opt this b = None_opt \<and> isNone (xor_opt this b))
   \<and> (isNone this \<and> isNone b \<longrightarrow> xor_opt this b = None_opt \<and> isNone (xor_opt this b))"
  by (auto simp add: xor_opt_def isNone_not_isSome None_opt_def isSome_new)

text \<open>C8 on the four combinations of \<^verbatim>\<open>Some("a")\<close>, \<^verbatim>\<open>Some("b")\<close> and \<^verbatim>\<open>None()\<close>.\<close>

theorem xor_spec_witness:
  "xor_opt (Some_opt (Str ''a'')) None_opt = Some_opt (Str ''a'')
   \<and> xor_opt None_opt (Some_opt (Str ''a'')) = Some_opt (Str ''a'')
   \<and> xor_opt (Some_opt (Str ''a'')) (Some_opt (Str ''b'')) = None_opt
   \<and> xor_opt None_opt None_opt = None_opt
   \<and> isSome (Some_opt (Str ''a'')) \<and> isSome (Some_opt (Str ''b'')) \<and> isNone None_opt"
  using xor_spec [of "Some_opt (Str ''a'')" None_opt] xor_spec [of None_opt "Some_opt (Str ''a'')"]
    xor_spec [of "Some_opt (Str ''a'')" "Some_opt (Str ''b'')"] xor_spec [of None_opt None_opt]
  by (simp add: Some_opt_def None_opt_def isSome_new isNone_not_isSome)

section \<open>In-place mutation\<close>

text \<open>
  C5. After \<^verbatim>\<open>take()\<close> the receiver is \<^verbatim>\<open>None\<close>. On a \<^verbatim>\<open>Some(p)\<close> the call returns
  \<^verbatim>\<open>Some(p)\<close>, on a \<^verbatim>\<open>None\<close> it returns \<^verbatim>\<open>None\<close>, and a second \<^verbatim>\<open>take()\<close> on the same
  receiver returns \<^verbatim>\<open>None\<close>.
\<close>

theorem take_spec:
  "isNone (snd (take_opt this))
   \<and> snd (take_opt this) = None_opt
   \<and> (isSome this \<longrightarrow> fst (take_opt this) = Some_opt (payload this)
         \<and> isSome (fst (take_opt this)) \<and> unwrap (fst (take_opt this)) = Inr (payload this))
   \<and> (isNone this \<longrightarrow> fst (take_opt this) = None_opt \<and> isNone (fst (take_opt this)))
   \<and> fst (take_opt (snd (take_opt this))) = None_opt
   \<and> isNone (fst (take_opt (snd (take_opt this))))"
  by (auto simp add: take_opt_eq isNone_payload isSome_payload None_opt_def Some_opt_def
        Option_new_def unwrap_def typeof_undefined_iff)

text \<open>C5 on \<^verbatim>\<open>Some(1)\<close> and on \<^verbatim>\<open>None()\<close>.\<close>

theorem take_spec_witness:
  "isSome (Some_opt (Num 1)) \<and> isNone None_opt
   \<and> take_opt (Some_opt (Num 1)) = (Some_opt (Num 1), None_opt)
   \<and> take_opt None_opt = (None_opt, None_opt)
   \<and> fst (take_opt (snd (take_opt (Some_opt (Num 1))))) = None_opt"
  using take_spec [of "Some_opt (Num 1)"] take_spec [of None_opt]
  by (simp add: Some_opt_def None_opt_def isSome_new isNone_not_isSome payload_new prod_eq_iff)

text \<open>
  C3, as stated, fails when the new payload is the absence sentinel:
  \<^verbatim>\<open>Some(1).replace(undefined)\<close> stores \<^verbatim>\<open>undefined\<close> in the slot, and the receiver is a
  \<^verbatim>\<open>None\<close> afterwards, not a \<^verbatim>\<open>Some\<close>.
\<close>

theorem replace_sentinel_counterexample:
  "isSome (Some_opt (Num 1))
   \<and> snd (replace Undefined (Some_opt (Num 1))) = None_opt
   \<and> \<not> isSome (snd (replace Undefined (Some_opt (Num 1))))"
  by (simp add: replace_eq Some_opt_def None_opt_def isSome_new)

text \<open>
  C3, amended. \<^verbatim>\<open>replace(p)\<close> returns a container holding the receiver's previous
  payload (\<^verbatim>\<open>None\<close> if it held none) and stores \<open>p\<close> in the receiver's slot. For every
  \<open>p\<close> other than the absence sentinel the receiver is \<^verbatim>\<open>Some(p)\<close> after the call; for
  the sentinel it is \<^verbatim>\<open>None\<close>.
\<close>

theorem replace_spec:
  "fst (replace p this) = from_opt (payload this)
   \<and> (isSome this \<longrightarrow> fst (replace p this) = Some_opt (payload this)
         \<and> isSome (fst (replace p this)) \<and> unwrap (fst (replace p this)) = Inr (payload this))
   \<and> (isNone this \<longrightarrow> fst (replace p this) = None_opt \<and> isNone (fst (replace p this)))
   \<and> payload (snd (replace p this)) = p
   \<and> (p \<noteq> Undefined \<longrightarrow> snd (replace p this) = Some_opt p
         \<and> isSome (snd (replace p this)) \<and> unwrap (snd (replace p this)) = Inr p)
   \<and> (p = Undefined \<longrightarrow> snd (replace p this) = None_opt \<and> isNone (snd (replace p this)))"
  by (auto simp add: replace_eq isNone_payload isSome_payload None_opt_def Some_opt_def
        from_opt_def Option_new_def unwrap_def typeof_undefined_iff)

text \<open>
  The amended C3 on \<^verbatim>\<open>Some(1).replace(2)\<close>, \<^verbatim>\<open>None().replace(1)\<close> and
  \<^verbatim>\<open>Some(1).replace(undefined)\<close>.
\<close>

theorem replace_spec_witness:
  "isSome (Some_opt (Num 1)) \<and> isNone None_opt \<and> Num 2 \<noteq> Undefined
   \<and> replace (Num 2) (Some_opt (Num 1)) = (Some_opt (Num 1), Some_opt (Num 2))
   \<and> replace (Num 1) None_opt = (None_opt, Some_opt (Num 1))
   \<and> replace Undefined (Some_opt (Num 1)) = (Some_opt (Num 1), None_opt)"
  using replace_spec [of "Num 2" "Some_opt (Num 1)"] replace_spec [of "Num 1" None_opt]
    replace_spec [of Undefined "Some_opt (Num 1)"]
  by (simp add: Some_opt_def None_opt_def from_opt_def isSome_new isNone_not_isSome payload_new
        prod_eq_iff)

section \<open>Transposition\<close>

text \<open>
  C1, as stated, fails on a success outcome whose inner value is the absence sentinel:
  \<^verbatim>\<open>Some(Ok(undefined)).transpose()\<close> wraps \<^verbatim>\<open>Option.from(undefined)\<close>, and resolves to
  a success outcome wrapping \<^verbatim>\<open>None\<close>, not a \<^verbatim>\<open>Some\<close>.
\<close>

theorem transpose_sentinel_counterexample:
  "isSome (Some_opt (ResultV (Result_Ok Undefined)))
   \<and> transpose_opt (Some_opt (ResultV (Result_Ok Undefined))) = Resolved (Result_Ok None_opt)
   \<and> \<not> isSome None_opt"
  by (simp add: transpose_Ok Some_opt_def None_opt_def from_opt_def isSome_new payload_new
        Result_Ok_def)

text \<open>
  C1, amended. \<^verbatim>\<open>transpose()\<close> resolves for every receiver: on a \<^verbatim>\<open>None\<close>, to a success
  outcome wrapping \<^verbatim>\<open>None\<close>; on a \<^verbatim>\<open>Some\<close> of a failure outcome, to a failure outcome
  carrying the inner failure's message; on a \<^verbatim>\<open>Some\<close> of a success outcome with inner
  value \<open>v\<close>, to a success outcome wrapping \<^verbatim>\<open>from(v)\<close>, which is \<^verbatim>\<open>Some(v)\<close> when \<open>v\<close> is
  not the absence sentinel and \<^verbatim>\<open>None\<close> when it is; on a \<^verbatim>\<open>Some(x)\<close> with \<open>x\<close> not an
  outcome, to a success outcome wrapping \<^verbatim>\<open>None\<close>.
\<close>

theorem transpose_spec:
  "(isNone this \<longrightarrow> transpose_opt this = Resolved (Result_Ok None_opt))
   \<and> (payload this = ResultV (Result_Err m c) \<longrightarrow>
         transpose_opt this = Resolved (Result_Err m Undefined))
   \<and> (payload this = ResultV (Result_Ok v) \<longrightarrow>
         transpose_opt this = Resolved (Result_Ok (from_opt v)))
   \<and> (payload this = ResultV (Result_Ok v) \<and> v \<noteq> Undefined \<longrightarrow>
         transpose_opt this = Resolved (Result_Ok (Some_opt v))
         \<and> isSome (Some_opt v) \<and> unwrap (Some_opt v) = Inr v)
   \<and> (payload this = ResultV (Result_Ok Undefined) \<longrightarrow>
         transpose_opt this = Resolved (Result_Ok None_opt))
   \<and> (isSome this \<and> (\<forall>r. payload this \<noteq> ResultV r) \<longrightarrow>
         transpose_opt this = Resolved (Result_Ok None_opt))"
  by (auto simp add: transpose_Err transpose_Ok transpose_other isNone_payload
        Result_Ok_def Result_Err_def Some_opt_def from_opt_def None_opt_def isSome_new unwrap_new)

text \<open>
  The amended C1 on \<^verbatim>\<open>None()\<close>, \<^verbatim>\<open>Some(Err("boom", 7))\<close>, \<^verbatim>\<open>Some(Ok(1))\<close>,
  \<^verbatim>\<open>Some(Ok(undefined))\<close> and \<^verbatim>\<open>Some(1)\<close>.
\<close>

theorem transpose_spec_witness:
  "isNone None_opt \<and> isSome (Some_opt (Num 1)) \<and> (\<forall>r. payload (Some_opt (Num 1)) \<noteq> ResultV r)
   \<and> transpose_opt None_opt = Resolved (Result_Ok None_opt)
   \<and> transpose_opt (Some_opt (ResultV (Result_Err ''boom'' (Num 7))))
       = Resolved (Result_Err ''boom'' Undefined)
   \<and> transpose_opt (Some_opt (ResultV (Result_Ok (Num 1))))
       = Resolved (Result_Ok (Some_opt (Num 1)))
   \<and> transpose_opt (Some_opt (ResultV (Result_Ok Undefined))) = Resolved (Result_Ok None_opt)
   \<and> transpose_opt (Some_opt (Num 1)) = Resolved (Result_Ok None_opt)"
  using transpose_spec [of None_opt "''boom''" "Num 7" "Num 1"]
    transpose_spec [of "Some_opt (ResultV (Result_Err ''boom'' (Num 7)))" "''boom''" "Num 7" "Num 1"]
    transpose_spec [of "Some_opt (ResultV (Result_Ok (Num 1)))" "''boom''" "Num 7" "Num 1"]
    transpose_spec [of "Some_opt (ResultV (Result_Ok Undefined))" "''boom''" "Num 7" Undefined]
    transpose_spec [of "Some_opt (Num 1)" "''boom''" "Num 7" "Num 1"]
  by (simp add: Some_opt_def None_opt_def from_opt_def isSome_new isNone_not_isSome payload_new
        Result_Ok_def Result_Err_def)

end
